theory Spec2Isabelle
  imports Main
begin

section \<open>The Exolix swap plugin (src/swap/central/exolix.ts)\<close>

text \<open>
  A shallow embedding of \<^verbatim>\<open>makeExolixPlugin\<close>: the fixed-rate negotiation
  \<^verbatim>\<open>getFixedQuote\<close>, its inner \<^verbatim>\<open>call\<close>, and the entry point
  \<^verbatim>\<open>fetchSwapQuote\<close>.

  Conventions of the embedding.
  \<^item> A thrown exception or rejected promise is the \<open>Inl\<close> of a sum \<open>exn + 'a\<close>.
  \<^item> JavaScript numbers are kept abstract (the type variable \<open>'n\<close>): the plugin never
    computes with them, it only parses one (\<^verbatim>\<open>parseFloat\<close>), prints some
    (\<^verbatim>\<open>toString\<close>) and passes them on. The only numeric literal of the source that is a
    response value is the fallback \<open>0\<close> of \<^verbatim>\<open>withdrawMin\<close>, hence \<open>'n :: zero\<close>.
  \<^item> Native amounts are the decimal integer strings of the wallet; they are modelled as
    \<open>int\<close>, and \<^verbatim>\<open>lt\<close> of biggystring as \<open><\<close> on them.
  \<^item> The network is an oracle \<open>fetchCors\<close> that answers a request given the requests
    issued before it. The world state threaded through the effectful functions is the log
    of requests issued so far, so "no call is made" is "the log is unchanged".
  \<^item> \<^verbatim>\<open>Date.now()\<close> is read once, when the order object is built; its reading is the
    component \<open>dateNow\<close> of the environment.
\<close>

subsection \<open>Data\<close>

datatype 'n json =
    JNull
  | JBool bool
  | JNum 'n
  | JStr string
  | JArr "'n json list"
  | JObj "(string \<times> 'n json) list"

datatype quote_for = From | To | Max

datatype limit_direction = LimitFrom | LimitTo

text \<open>
  The exceptions the plugin can surface.
  \<^item> \<open>SwapCurrencyError from to\<close>: \<^verbatim>\<open>new SwapCurrencyError(swapInfo, request)\<close>, with the
    request's two currency codes.
  \<^item> \<open>SwapBelowLimitError nativeMin direction\<close>:
    \<^verbatim>\<open>new SwapBelowLimitError(swapInfo, nativeMin, direction)\<close>.
  \<^item> \<open>ProviderError status\<close>: \<^verbatim>\<open>new Error(`Exolix returned error code ${response.status}`)\<close>.
  \<^item> \<open>TypeError\<close>: a cleaner rejected a value.
  \<^item> \<open>SyntaxError\<close>: \<^verbatim>\<open>response.json()\<close> rejected.
  \<^item> \<open>WalletError\<close>, \<open>FetchError\<close>, \<open>HelperError\<close>: failures of the collaborators (wallet,
    transport, the helpers around the negotiation), passed through unchanged.
\<close>

datatype exn =
    SwapCurrencyError string string
  | SwapBelowLimitError int limit_direction
  | ProviderError int
  | TypeError
  | SyntaxError
  | WalletError string
  | FetchError string
  | HelperError string

record wallet =
  walletId :: string
  pluginId :: string
  getAddress :: "exn + string"
  nativeToDenomination :: "int \<Rightarrow> string \<Rightarrow> exn + string"
  denominationToNative :: "string \<Rightarrow> string \<Rightarrow> exn + int"

record request =
  fromWallet :: wallet
  toWallet :: wallet
  fromTokenId :: "string option"
  toTokenId :: "string option"
  fromCurrencyCode :: string
  toCurrencyCode :: string
  nativeAmount :: int
  quoteFor :: quote_for

record swap_info =
  info_pluginId :: string
  isDex :: bool
  displayName :: string
  supportEmail :: string

datatype http_method = GET | POST

record 'n fetch_request =
  req_method :: http_method
  req_url :: string
  req_headers :: "(string \<times> string) list"
  req_params :: "(string \<times> 'n json) list"

record 'n fetch_response =
  ok :: bool
  status :: int
  json_body :: "'n json option"

type_synonym 'n world = "'n fetch_request list"

datatype memo_kind = MemoText | MemoNumber | MemoHex

datatype fee_option = FeeHigh | FeeStandard

record 'n env =
  apiKey :: string
  fetchCors :: "'n world \<Rightarrow> 'n fetch_request \<Rightarrow> exn + 'n fetch_response"
  parseFloat :: "string \<Rightarrow> 'n"
  numToString :: "'n \<Rightarrow> string"
  memoType :: "string \<Rightarrow> memo_kind"
  dateNow :: int

record 'n rate_response =
  minAmount :: 'n
  withdrawMin :: 'n
  fromAmount :: 'n
  toAmount :: 'n
  message :: "string option"

record 'n quote_info =
  qi_id :: string
  qi_amount :: 'n
  qi_amountTo :: 'n
  depositAddress :: string
  depositExtraId :: "string option"

record transcribed =
  tr_fromCurrencyCode :: string
  tr_toCurrencyCode :: string
  tr_fromMainnetCode :: string
  tr_toMainnetCode :: string

record 'n prepared =
  fromAddress :: string
  toAddress :: string
  quoteAmount :: 'n
  codes :: transcribed
  quoteParams :: "(string \<times> 'n json) list"

record spend_target =
  target_nativeAmount :: int
  publicAddress :: string

record memo =
  memo_type :: memo_kind
  memo_value :: string

record swap_asset =
  asset_pluginId :: string
  asset_tokenId :: "string option"
  asset_nativeAmount :: int

record saved_action =
  actionType :: string
  action_swapInfo :: swap_info
  orderId :: string
  action_orderUri :: string
  isEstimate :: bool
  toAsset :: swap_asset
  fromAsset :: swap_asset
  payoutAddress :: string
  payoutWalletId :: string
  refundAddress :: string

record spend_info =
  tokenId :: "string option"
  spendTargets :: "spend_target list"
  memos :: "memo list"
  networkFeeOption :: fee_option
  assetActionType :: string
  savedAction :: saved_action

record swap_order =
  order_request :: request
  spendInfo :: spend_info
  order_swapInfo :: swap_info
  fromNativeAmount :: int
  expirationDate :: int

subsection \<open>Constants of the plugin\<close>

definition swapInfo :: swap_info where
  "swapInfo = \<lparr>info_pluginId = ''exolix'', isDex = False, displayName = ''Exolix'',
     supportEmail = ''support@exolix.com''\<rparr>"

text \<open>\<^verbatim>\<open>INVALID_CURRENCY_CODES\<close>: per direction, chain \<open>\<mapsto>\<close> disallowed asset symbols.\<close>

definition INVALID_CURRENCY_CODES_from :: "(string \<times> string list) list" where
  "INVALID_CURRENCY_CODES_from = []"

definition INVALID_CURRENCY_CODES_to :: "(string \<times> string list) list" where
  "INVALID_CURRENCY_CODES_to = [(''zcash'', [''ZEC''])]"

definition MAINNET_CODE_TRANSCRIPTION :: "(string \<times> string) list" where
  "MAINNET_CODE_TRANSCRIPTION =
    [(''algorand'', ''ALGO''),
     (''arbitrum'', ''ARBITRUM''),
     (''avalanche'', ''AVAXC''),
     (''binancesmartchain'', ''BSC''),
     (''bitcoin'', ''BTC''),
     (''bitcoincash'', ''BCH''),
     (''cardano'', ''ADA''),
     (''celo'', ''CELO''),
     (''cosmoshub'', ''ATOM''),
     (''dash'', ''DASH''),
     (''digibyte'', ''DGB''),
     (''dogecoin'', ''DOGE''),
     (''eos'', ''EOS''),
     (''ethereum'', ''ETH''),
     (''ethereumclassic'', ''ETC''),
     (''fantom'', ''FTM''),
     (''filecoin'', ''FIL''),
     (''hedera'', ''HBAR''),
     (''litecoin'', ''LTC''),
     (''monero'', ''XMR''),
     (''optimism'', ''OPTIMISM''),
     (''osmosis'', ''OSMO''),
     (''polkadot'', ''DOT''),
     (''qtum'', ''QTUM''),
     (''ravencoin'', ''RVN''),
     (''ripple'', ''XRP''),
     (''solana'', ''SOL''),
     (''stellar'', ''XLM''),
     (''telos'', ''TELOS''),
     (''tezos'', ''XTZ''),
     (''thorchainrune'', ''RUNE''),
     (''tron'', ''TRX''),
     (''zcash'', ''ZEC'')]"

definition orderUri :: string where
  "orderUri = ''https://exolix.com/transaction/''"

definition uri :: string where
  "uri = ''https://exolix.com/api/v2/''"

definition expirationMs :: int where
  "expirationMs = 1000 * 60"

subsection \<open>Cleaners\<close>

text \<open>
  The cleaners of the \<^verbatim>\<open>cleaners\<close> package that the two response shapes use. A raw
  value is a \<open>json option\<close>: \<open>None\<close> is \<^verbatim>\<open>undefined\<close> (a missing property).
\<close>

definition asNumber :: "'n json option \<Rightarrow> exn + 'n" where
  "asNumber raw = (case raw of Some (JNum x) \<Rightarrow> Inr x | _ \<Rightarrow> Inl TypeError)"

definition asString :: "'n json option \<Rightarrow> exn + string" where
  "asString raw = (case raw of Some (JStr s) \<Rightarrow> Inr s | _ \<Rightarrow> Inl TypeError)"

definition asNull :: "'n json option \<Rightarrow> exn + unit" where
  "asNull raw = (case raw of Some JNull \<Rightarrow> Inr () | _ \<Rightarrow> Inl TypeError)"

text \<open>\<^verbatim>\<open>asOptional(cleaner, fallback)\<close>: \<^verbatim>\<open>raw != null ? cleaner(raw) : fallback\<close>.\<close>

definition asOptional ::
  "('n json option \<Rightarrow> exn + 'a) \<Rightarrow> 'a \<Rightarrow> 'n json option \<Rightarrow> exn + 'a" where
  "asOptional cleaner fallback raw =
     (case raw of None \<Rightarrow> Inr fallback | Some JNull \<Rightarrow> Inr fallback | _ \<Rightarrow> cleaner raw)"

text \<open>\<^verbatim>\<open>asEither(a, b)\<close>: the first cleaner, and the second when the first throws.\<close>

definition asEither ::
  "('n json option \<Rightarrow> exn + 'a) \<Rightarrow> ('n json option \<Rightarrow> exn + 'a) \<Rightarrow> 'n json option \<Rightarrow> exn + 'a" where
  "asEither a b raw = (case a raw of Inr x \<Rightarrow> Inr x | Inl _ \<Rightarrow> b raw)"

text \<open>\<^verbatim>\<open>asMaybe(cleaner)\<close>: \<^verbatim>\<open>undefined\<close> (here \<open>None\<close>) when the cleaner throws.\<close>

definition asMaybe :: "('r \<Rightarrow> exn + 'a) \<Rightarrow> 'r \<Rightarrow> 'a option" where
  "asMaybe cleaner raw = (case cleaner raw of Inr x \<Rightarrow> Some x | Inl _ \<Rightarrow> None)"

text \<open>
  \<^verbatim>\<open>asObject(shape)\<close> accepts what \<^verbatim>\<open>typeof\<close> calls an object and is not null (so an
  array too), and reads each key of the shape with \<^verbatim>\<open>raw[key]\<close>; an array has none of
  the keys used here.
\<close>

definition isObject :: "'n json \<Rightarrow> bool" where
  "isObject raw = (case raw of JObj _ \<Rightarrow> True | JArr _ \<Rightarrow> True | _ \<Rightarrow> False)"

definition field :: "'n json \<Rightarrow> string \<Rightarrow> 'n json option" where
  "field raw k = (case raw of JObj fs \<Rightarrow> map_of fs k | _ \<Rightarrow> None)"

text \<open>Sequencing of steps that may throw: the first \<open>Inl\<close> ends the computation.\<close>

definition bindE :: "exn + 'a \<Rightarrow> ('a \<Rightarrow> exn + 'b) \<Rightarrow> exn + 'b" where
  "bindE m f = (case m of Inl e \<Rightarrow> Inl e | Inr x \<Rightarrow> f x)"

definition asMessage :: "'n json option \<Rightarrow> exn + string option" where
  "asMessage =
     asEither (\<lambda>r. bindE (asString r) (\<lambda>s. Inr (Some s)))
              (\<lambda>r. bindE (asNull r) (\<lambda>_. Inr None))"

definition asRateResponse :: "('n::zero) json \<Rightarrow> exn + 'n rate_response" where
  "asRateResponse raw =
     (if \<not> isObject raw then Inl TypeError
      else bindE (asNumber (field raw ''minAmount'')) (\<lambda>mn.
           bindE (asOptional asNumber 0 (field raw ''withdrawMin'')) (\<lambda>wm.
           bindE (asNumber (field raw ''fromAmount'')) (\<lambda>fa.
           bindE (asNumber (field raw ''toAmount'')) (\<lambda>ta.
           bindE (asMessage (field raw ''message'')) (\<lambda>msg.
             Inr \<lparr>minAmount = mn, withdrawMin = wm, fromAmount = fa, toAmount = ta,
                  message = msg\<rparr>))))))"

definition asOptionalString :: "'n json option \<Rightarrow> exn + string option" where
  "asOptionalString =
     asOptional (\<lambda>r. bindE (asString r) (\<lambda>s. Inr (Some s))) None"

definition asQuoteInfo :: "'n json \<Rightarrow> exn + 'n quote_info" where
  "asQuoteInfo raw =
     (if \<not> isObject raw then Inl TypeError
      else bindE (asString (field raw ''id'')) (\<lambda>i.
           bindE (asNumber (field raw ''amount'')) (\<lambda>a.
           bindE (asNumber (field raw ''amountTo'')) (\<lambda>at.
           bindE (asString (field raw ''depositAddress'')) (\<lambda>da.
           bindE (asOptionalString (field raw ''depositExtraId'')) (\<lambda>de.
             Inr \<lparr>qi_id = i, qi_amount = a, qi_amountTo = at, depositAddress = da,
                  depositExtraId = de\<rparr>))))))"

subsection \<open>Helpers of the repository that the plugin imports\<close>

text \<open>
  Modelled from the spec: \<^verbatim>\<open>checkInvalidCodes\<close> of util/swapHelpers, which is not among
  the sources. The spec's blacklist check "rejects specific (chain, symbol) pairs that the
  exchange is known not to support even when the chain itself is supported"; the failure
  is a \<open>CurrencyUnsupported\<close> error. The table it is given (\<^verbatim>\<open>INVALID_CURRENCY_CODES\<close>,
  in the sources) has one chain-to-symbols map per leg, so each leg is looked up in its
  own map.
\<close>

definition blacklisted :: "(string \<times> string list) list \<Rightarrow> string \<Rightarrow> string \<Rightarrow> bool" where
  "blacklisted tbl chain symbol =
     (case map_of tbl chain of None \<Rightarrow> False | Some syms \<Rightarrow> List.member syms symbol)"

definition checkInvalidCodes ::
  "(string \<times> string list) list \<Rightarrow> (string \<times> string list) list \<Rightarrow> request \<Rightarrow> exn + unit" where
  "checkInvalidCodes invalidFrom invalidTo request =
     (if blacklisted invalidFrom (pluginId (fromWallet request)) (fromCurrencyCode request)
         \<or> blacklisted invalidTo (pluginId (toWallet request)) (toCurrencyCode request)
      then Inl (SwapCurrencyError (fromCurrencyCode request) (toCurrencyCode request))
      else Inr ())"

text \<open>
  Modelled from the spec: \<^verbatim>\<open>checkWhitelistedMainnetCodes\<close> of util/swapHelpers, which is
  not among the sources. The spec's whitelist check "rejects the entire request (both
  legs) if either leg's chain is missing from the table".
\<close>

definition checkWhitelistedMainnetCodes :: "(string \<times> string) list \<Rightarrow> request \<Rightarrow> exn + unit" where
  "checkWhitelistedMainnetCodes tbl request =
     (if map_of tbl (pluginId (fromWallet request)) = None
         \<or> map_of tbl (pluginId (toWallet request)) = None
      then Inl (SwapCurrencyError (fromCurrencyCode request) (toCurrencyCode request))
      else Inr ())"

text \<open>
  Modelled from the spec: \<^verbatim>\<open>getCodesWithTranscription\<close> of util/swapHelpers, which is not
  among the sources. The spec's \<open>transcribe(chainId)\<close> gives "the exchange's network code
  from the static table, or a NotSupported signal if absent", and the negotiation's step 3
  rejects the request when transcription fails. The asset symbols are passed on as the
  request has them.
\<close>

definition getCodesWithTranscription :: "request \<Rightarrow> (string \<times> string) list \<Rightarrow> exn + transcribed" where
  "getCodesWithTranscription request tbl =
     (case map_of tbl (pluginId (fromWallet request)) of
        None \<Rightarrow> Inl (SwapCurrencyError (fromCurrencyCode request) (toCurrencyCode request))
      | Some fromMainnet \<Rightarrow>
         (case map_of tbl (pluginId (toWallet request)) of
            None \<Rightarrow> Inl (SwapCurrencyError (fromCurrencyCode request) (toCurrencyCode request))
          | Some toMainnet \<Rightarrow>
              Inr \<lparr>tr_fromCurrencyCode = fromCurrencyCode request,
                   tr_toCurrencyCode = toCurrencyCode request,
                   tr_fromMainnetCode = fromMainnet,
                   tr_toMainnetCode = toMainnet\<rparr>))"

text \<open>
  \<^verbatim>\<open>String.prototype.toUpperCase\<close>, on the ASCII letters; every other character is
  left as it is. (Outside ASCII the two differ, but no character outside ASCII has an
  uppercase form made of the letters B, T or C alone, so the comparison with \<open>BTC\<close> that
  the plugin makes comes out the same.)
\<close>

definition toUpperChar :: "char \<Rightarrow> char" where
  "toUpperChar c =
     (case map_of (zip ''abcdefghijklmnopqrstuvwxyz'' ''ABCDEFGHIJKLMNOPQRSTUVWXYZ'') c of
        Some u \<Rightarrow> u
      | None \<Rightarrow> c)"

definition toUpperCase :: "string \<Rightarrow> string" where
  "toUpperCase s = map toUpperChar s"

subsection \<open>The remote call (lines 146-194)\<close>

definition headers :: "'n env \<Rightarrow> (string \<times> string) list" where
  "headers e =
     [(''Accept'', ''application/json''),
      (''Content-Type'', ''application/json''),
      (''Authorization'', apiKey e)]"

text \<open>
  The request that \<^verbatim>\<open>call(method, route, params)\<close> hands to \<^verbatim>\<open>fetchCors\<close>. The
  parameters travel as the JSON body of a POST and as the query string of a GET; the model
  keeps them as the object they are serialised from.
\<close>

definition mkRequest ::
  "'n env \<Rightarrow> http_method \<Rightarrow> string \<Rightarrow> (string \<times> 'n json) list \<Rightarrow> 'n fetch_request" where
  "mkRequest e m route ps =
     \<lparr>req_method = m, req_url = uri @ route, req_headers = headers e, req_params = ps\<rparr>"

text \<open>
  What \<^verbatim>\<open>call\<close> makes of a response (lines 174-193). \<^verbatim>\<open>log.warn\<close> has no effect on
  the result and is left out.
\<close>

definition handleResponse :: "request \<Rightarrow> ('n::zero) fetch_response \<Rightarrow> exn + 'n json" where
  "handleResponse request response =
     (if \<not> ok response then
        (if status response = 422 then
           (case json_body response of
              None \<Rightarrow> Inl SyntaxError
            | Some resJson \<Rightarrow>
               (case asMaybe asRateResponse resJson of
                  Some maybeMinError \<Rightarrow> Inr resJson
                | None \<Rightarrow>
                    Inl (SwapCurrencyError (fromCurrencyCode request) (toCurrencyCode request))))
         else Inl (ProviderError (status response)))
      else (case json_body response of None \<Rightarrow> Inl SyntaxError | Some j \<Rightarrow> Inr j))"

definition call ::
  "('n::zero) env \<Rightarrow> request \<Rightarrow> http_method \<Rightarrow> string \<Rightarrow> (string \<times> 'n json) list \<Rightarrow>
     'n world \<Rightarrow> (exn + 'n json) \<times> 'n world" where
  "call e request m route ps w =
     (let rq = mkRequest e m route ps in
        (bindE (fetchCors e w rq) (handleResponse request), w @ [rq]))"

subsection \<open>The negotiation (lines 142-344)\<close>

text \<open>
  Lines 196-233: both addresses (the model resolves the source wallet's first), the
  request's amount in the exchange's unit through the wallet of the quoted side, the
  transcribed codes, and the parameters of the rate request.
\<close>

definition mkQuoteParams :: "request \<Rightarrow> transcribed \<Rightarrow> 'n \<Rightarrow> (string \<times> 'n json) list" where
  "mkQuoteParams request c amt =
     [(''coinFrom'', JStr (tr_fromCurrencyCode c)),
      (''coinFromNetwork'', JStr (tr_fromMainnetCode c)),
      (''coinTo'', JStr (tr_toCurrencyCode c)),
      (''coinToNetwork'', JStr (tr_toMainnetCode c)),
      (''amount'', JNum amt),
      (''rateType'', JStr ''fixed'')]
     @ (if quoteFor request = To then [(''withdrawalAmount'', JNum amt)] else [])"

definition prepareQuote :: "'n env \<Rightarrow> request \<Rightarrow> exn + 'n prepared" where
  "prepareQuote e request =
     bindE (getAddress (fromWallet request)) (\<lambda>fromAddr.
     bindE (getAddress (toWallet request)) (\<lambda>toAddr.
     bindE (if quoteFor request = From
            then nativeToDenomination (fromWallet request)
                   (nativeAmount request) (fromCurrencyCode request)
            else nativeToDenomination (toWallet request)
                   (nativeAmount request) (toCurrencyCode request)) (\<lambda>exchangeQuoteAmount.
     bindE (getCodesWithTranscription request MAINNET_CODE_TRANSCRIPTION) (\<lambda>c.
       Inr \<lparr>fromAddress = fromAddr, toAddress = toAddr,
            quoteAmount = parseFloat e exchangeQuoteAmount, codes = c,
            quoteParams = mkQuoteParams request c (parseFloat e exchangeQuoteAmount)\<rparr>))))"

text \<open>Lines 238-257: the minimum of the quoted side, in native units, against the request.\<close>

definition checkRateMinimum :: "'n env \<Rightarrow> request \<Rightarrow> 'n rate_response \<Rightarrow> exn + unit" where
  "checkRateMinimum e request rateResponse =
     (if quoteFor request = From then
        bindE (denominationToNative (fromWallet request)
                 (numToString e (minAmount rateResponse)) (fromCurrencyCode request)) (\<lambda>nativeMin.
          if nativeAmount request < nativeMin
          then Inl (SwapBelowLimitError nativeMin LimitFrom) else Inr ())
      else
        bindE (denominationToNative (toWallet request)
                 (numToString e (withdrawMin rateResponse)) (toCurrencyCode request)) (\<lambda>nativeMin.
          if nativeAmount request < nativeMin
          then Inl (SwapBelowLimitError nativeMin LimitTo) else Inr ()))"

text \<open>Lines 260-276: the parameters of the binding request.\<close>

definition exchangeParams :: "request \<Rightarrow> 'n prepared \<Rightarrow> (string \<times> 'n json) list" where
  "exchangeParams request p =
     [(''coinFrom'', JStr (tr_fromCurrencyCode (codes p))),
      (''networkFrom'', JStr (tr_fromMainnetCode (codes p))),
      (''coinTo'', JStr (tr_toCurrencyCode (codes p))),
      (''networkTo'', JStr (tr_toMainnetCode (codes p))),
      (''amount'', JNum (quoteAmount p)),
      (''withdrawalAddress'', JStr (toAddress p)),
      (''withdrawalExtraId'', JStr []),
      (''refundAddress'', JStr (fromAddress p)),
      (''refundExtraId'', JStr []),
      (''rateType'', JStr ''fixed'')]
     @ (if quoteFor request = To then [(''withdrawalAmount'', JNum (quoteAmount p))] else [])"

text \<open>Lines 291-299: the memo of the deposit.\<close>

definition mkMemos :: "'n env \<Rightarrow> request \<Rightarrow> 'n quote_info \<Rightarrow> memo list" where
  "mkMemos e request quoteInfo =
     (case depositExtraId quoteInfo of
        None \<Rightarrow> []
      | Some extraId \<Rightarrow>
          [\<lparr>memo_type = memoType e (pluginId (fromWallet request)), memo_value = extraId\<rparr>])"

text \<open>Lines 301-335: the spend plan.\<close>

definition mkSpendInfo ::
  "'n env \<Rightarrow> request \<Rightarrow> 'n prepared \<Rightarrow> 'n quote_info \<Rightarrow> int \<Rightarrow> int \<Rightarrow> spend_info" where
  "mkSpendInfo e request p quoteInfo fromNative toNative =
     \<lparr>tokenId = fromTokenId request,
      spendTargets =
        [\<lparr>target_nativeAmount = fromNative, publicAddress = depositAddress quoteInfo\<rparr>],
      memos = mkMemos e request quoteInfo,
      networkFeeOption =
        (if toUpperCase (fromCurrencyCode request) = ''BTC'' then FeeHigh else FeeStandard),
      assetActionType = ''swap'',
      savedAction =
        \<lparr>actionType = ''swap'',
         action_swapInfo = swapInfo,
         orderId = qi_id quoteInfo,
         action_orderUri = orderUri @ qi_id quoteInfo,
         isEstimate = False,
         toAsset = \<lparr>asset_pluginId = pluginId (toWallet request),
                    asset_tokenId = toTokenId request,
                    asset_nativeAmount = toNative\<rparr>,
         fromAsset = \<lparr>asset_pluginId = pluginId (fromWallet request),
                      asset_tokenId = fromTokenId request,
                      asset_nativeAmount = fromNative\<rparr>,
         payoutAddress = toAddress p,
         payoutWalletId = walletId (toWallet request),
         refundAddress = fromAddress p\<rparr>\<rparr>"

text \<open>Lines 281-343: from the bound order to the order handed back.\<close>

definition assembleOrder ::
  "'n env \<Rightarrow> request \<Rightarrow> 'n prepared \<Rightarrow> 'n quote_info \<Rightarrow> exn + swap_order" where
  "assembleOrder e request p quoteInfo =
     bindE (denominationToNative (fromWallet request)
              (numToString e (qi_amount quoteInfo)) (fromCurrencyCode request)) (\<lambda>fromNative.
     bindE (denominationToNative (toWallet request)
              (numToString e (qi_amountTo quoteInfo)) (toCurrencyCode request)) (\<lambda>toNative.
       Inr \<lparr>order_request = request,
            spendInfo = mkSpendInfo e request p quoteInfo fromNative toNative,
            order_swapInfo = swapInfo,
            fromNativeAmount = fromNative,
            expirationDate = dateNow e + expirationMs\<rparr>))"

text \<open>Lines 259-343: the binding call and what follows it.\<close>

definition createOrder ::
  "('n::zero) env \<Rightarrow> request \<Rightarrow> 'n prepared \<Rightarrow> 'n world \<Rightarrow> (exn + swap_order) \<times> 'n world" where
  "createOrder e request p w =
     (case call e request POST ''transactions'' (exchangeParams request p) w of
        (callJson, w') \<Rightarrow>
          (bindE callJson (\<lambda>j. bindE (asQuoteInfo j) (assembleOrder e request p)), w'))"

definition getFixedQuote ::
  "('n::zero) env \<Rightarrow> request \<Rightarrow> 'n world \<Rightarrow> (exn + swap_order) \<times> 'n world" where
  "getFixedQuote e request w =
     (case prepareQuote e request of
        Inl x \<Rightarrow> (Inl x, w)
      | Inr p \<Rightarrow>
         (case call e request GET ''rate'' (quoteParams p) w of
            (rateJson, w1) \<Rightarrow>
              (case bindE rateJson (\<lambda>j. bindE (asRateResponse j) (checkRateMinimum e request)) of
                 Inl x \<Rightarrow> (Inl x, w1)
               | Inr u \<Rightarrow> createOrder e request p w1)))"

subsection \<open>The entry point (lines 346-371)\<close>

text \<open>
  \<^verbatim>\<open>fetchSwapQuote\<close>, from the request that \<^verbatim>\<open>convertRequest\<close> returns. The two
  collaborators around the negotiation, \<^verbatim>\<open>getMaxSwappable\<close> and
  \<^verbatim>\<open>makeSwapPluginQuote\<close> (util/swapHelpers, not among the sources), are parameters:
  the first is handed the negotiation itself and may run it.
\<close>

definition fetchSwapQuote ::
  "((request \<Rightarrow> 'n world \<Rightarrow> (exn + swap_order) \<times> 'n world) \<Rightarrow> request \<Rightarrow> 'n world \<Rightarrow>
      (exn + request) \<times> 'n world) \<Rightarrow>
   (swap_order \<Rightarrow> exn + 'q) \<Rightarrow>
   ('n::zero) env \<Rightarrow> request \<Rightarrow> 'n world \<Rightarrow> (exn + 'q) \<times> 'n world" where
  "fetchSwapQuote getMaxSwappable makeSwapPluginQuote e request w =
     (case checkInvalidCodes INVALID_CURRENCY_CODES_from INVALID_CURRENCY_CODES_to request of
        Inl x \<Rightarrow> (Inl x, w)
      | Inr u \<Rightarrow>
         (case checkWhitelistedMainnetCodes MAINNET_CODE_TRANSCRIPTION request of
            Inl x \<Rightarrow> (Inl x, w)
          | Inr u' \<Rightarrow>
             (case getMaxSwappable (getFixedQuote e) request w of
                (Inl x, w1) \<Rightarrow> (Inl x, w1)
              | (Inr newRequest, w1) \<Rightarrow>
                 (case getFixedQuote e newRequest w1 of
                    (fixedOrder, w2) \<Rightarrow> (bindE fixedOrder makeSwapPluginQuote, w2)))))"

subsection \<open>Test doubles\<close>

text \<open>
  A fake wallet pair, a fake exchange and a few requests, used to run the definitions on
  concrete inputs. The fake exchange's numbers are integers. Both fake wallets count 100
  native units to the unit; the decimal amounts they know are those of \<open>demo_decimals\<close>.
\<close>

definition demo_decimals :: "(string \<times> int) list" where
  "demo_decimals = [(''0'', 0), (''5'', 5), (''10'', 10), (''20'', 20)]"

definition demo_parseFloat :: "string \<Rightarrow> int" where
  "demo_parseFloat s = (case map_of demo_decimals s of Some n \<Rightarrow> n | None \<Rightarrow> 0)"

definition demo_toString :: "int \<Rightarrow> string" where
  "demo_toString n =
     (case filter (\<lambda>sv. snd sv = n) demo_decimals of sv # _ \<Rightarrow> fst sv | [] \<Rightarrow> ''NaN'')"

definition demo_nativeToDenomination :: "int \<Rightarrow> string \<Rightarrow> exn + string" where
  "demo_nativeToDenomination n code =
     (case filter (\<lambda>sv. snd sv * 100 = n) demo_decimals of
        sv # _ \<Rightarrow> Inr (fst sv)
      | [] \<Rightarrow> Inl (WalletError ''unknown amount''))"

definition demo_denominationToNative :: "string \<Rightarrow> string \<Rightarrow> exn + int" where
  "demo_denominationToNative s code =
     (case map_of demo_decimals s of
        Some n \<Rightarrow> Inr (n * 100)
      | None \<Rightarrow> Inl (WalletError ''unknown amount''))"

definition demo_wallet :: "string \<Rightarrow> string \<Rightarrow> string \<Rightarrow> wallet" where
  "demo_wallet wid chain addr =
     \<lparr>walletId = wid, pluginId = chain, getAddress = Inr addr,
      nativeToDenomination = demo_nativeToDenomination,
      denominationToNative = demo_denominationToNative\<rparr>"

definition demo_btc :: wallet where
  "demo_btc = demo_wallet ''w-btc'' ''bitcoin'' ''bc1-user''"

definition demo_xrp :: wallet where
  "demo_xrp = demo_wallet ''w-xrp'' ''ripple'' ''r-user''"

definition demo_zec :: wallet where
  "demo_zec = demo_wallet ''w-zec'' ''zcash'' ''t1-user''"

definition demo_matic :: wallet where
  "demo_matic = demo_wallet ''w-matic'' ''polygon'' ''0x-user''"

definition demo_request :: "wallet \<Rightarrow> string \<Rightarrow> wallet \<Rightarrow> string \<Rightarrow> quote_for \<Rightarrow> int \<Rightarrow> request" where
  "demo_request fw fc tw tc dir n =
     \<lparr>fromWallet = fw, toWallet = tw, fromTokenId = None, toTokenId = None,
      fromCurrencyCode = fc, toCurrencyCode = tc, nativeAmount = n, quoteFor = dir\<rparr>"

text \<open>BTC to XRP: 20 units in, 5 units in (under the minimum), and the same for the output.\<close>

definition req_from_20 :: request where
  "req_from_20 = demo_request demo_btc ''BTC'' demo_xrp ''XRP'' From 2000"

definition req_from_5 :: request where
  "req_from_5 = demo_request demo_btc ''BTC'' demo_xrp ''XRP'' From 500"

definition req_to_20 :: request where
  "req_to_20 = demo_request demo_btc ''BTC'' demo_xrp ''XRP'' To 2000"

definition req_to_5 :: request where
  "req_to_5 = demo_request demo_btc ''BTC'' demo_xrp ''XRP'' To 500"

definition req_lower_20 :: request where
  "req_lower_20 = demo_request demo_btc ''btc'' demo_xrp ''XRP'' From 2000"

text \<open>XRP to BTC, the deposit going to a tagged XRP address.\<close>

definition req_xrp_20 :: request where
  "req_xrp_20 = demo_request demo_xrp ''XRP'' demo_btc ''BTC'' From 2000"

definition demo_memoType :: "string \<Rightarrow> memo_kind" where
  "demo_memoType chain = (if chain = ''ripple'' then MemoNumber else MemoText)"

text \<open>The fake exchange answers by route, whatever was asked before.\<close>

definition demo_env :: "exn + int fetch_response \<Rightarrow> exn + int fetch_response \<Rightarrow> int env" where
  "demo_env rateAnswer orderAnswer =
     \<lparr>apiKey = ''secret'',
      fetchCors = (\<lambda>h rq. if req_url rq = uri @ ''rate'' then rateAnswer else orderAnswer),
      parseFloat = demo_parseFloat,
      numToString = demo_toString,
      memoType = demo_memoType,
      dateNow = 1700000000000\<rparr>"

definition rate_body :: "int json" where
  "rate_body =
     JObj [(''minAmount'', JNum 10), (''withdrawMin'', JNum 10), (''fromAmount'', JNum 20),
           (''toAmount'', JNum 5), (''message'', JNull)]"

definition rate_body_no_withdrawMin :: "int json" where
  "rate_body_no_withdrawMin =
     JObj [(''minAmount'', JNum 10), (''fromAmount'', JNum 20), (''toAmount'', JNum 5),
           (''message'', JNull)]"

definition rate_body_other_quote :: "int json" where
  "rate_body_other_quote =
     JObj [(''minAmount'', JNum 10), (''withdrawMin'', JNum 10), (''fromAmount'', JNum 0),
           (''toAmount'', JNum 0), (''message'', JStr ''quote changed'')]"

definition rate_body_below :: "int json" where
  "rate_body_below =
     JObj [(''minAmount'', JNum 10), (''withdrawMin'', JNum 10), (''fromAmount'', JNum 5),
           (''toAmount'', JNum 0), (''message'', JStr ''Amount to exchange is below the minimum'')]"

definition order_body :: "int json" where
  "order_body =
     JObj [(''id'', JStr ''ex-1''), (''amount'', JNum 20), (''amountTo'', JNum 5),
           (''depositAddress'', JStr ''deposit-addr''), (''validUntil'', JNum 10)]"

definition order_body_tagged :: "int json" where
  "order_body_tagged =
     JObj [(''id'', JStr ''ex-2''), (''amount'', JNum 20), (''amountTo'', JNum 5),
           (''depositAddress'', JStr ''r-exchange''), (''depositExtraId'', JStr ''4711'')]"

definition answer :: "bool \<Rightarrow> int \<Rightarrow> int json \<Rightarrow> exn + int fetch_response" where
  "answer is_ok code body = Inr \<lparr>ok = is_ok, status = code, json_body = Some body\<rparr>"

definition env_ok :: "int env" where
  "env_ok = demo_env (answer True 200 rate_body) (answer True 200 order_body)"

definition env_ok_other_quote :: "int env" where
  "env_ok_other_quote = demo_env (answer True 200 rate_body_other_quote) (answer True 200 order_body)"

definition env_no_withdrawMin :: "int env" where
  "env_no_withdrawMin =
     demo_env (answer True 200 rate_body_no_withdrawMin) (answer True 200 order_body)"

definition env_tagged :: "int env" where
  "env_tagged = demo_env (answer True 200 rate_body) (answer True 200 order_body_tagged)"

definition env_below_422 :: "int env" where
  "env_below_422 = demo_env (answer False 422 rate_body_below) (answer True 200 order_body)"

definition env_below_500 :: "int env" where
  "env_below_500 = demo_env (answer False 500 rate_body_below) (answer True 200 order_body)"

definition env_bad_422 :: "int env" where
  "env_bad_422 = demo_env (answer False 422 (JObj [])) (answer True 200 order_body)"

definition env_bad_500 :: "int env" where
  "env_bad_500 = demo_env (answer False 500 (JObj [])) (answer True 200 order_body)"

text \<open>
  A stand-in for \<^verbatim>\<open>getMaxSwappable\<close> that runs the negotiation it is handed once and
  then returns the request as it was, and one for \<^verbatim>\<open>makeSwapPluginQuote\<close> that
  returns the order itself.
\<close>

definition demo_getMaxSwappable ::
  "(request \<Rightarrow> int world \<Rightarrow> (exn + swap_order) \<times> int world) \<Rightarrow> request \<Rightarrow> int world \<Rightarrow>
     (exn + request) \<times> int world" where
  "demo_getMaxSwappable quote request w =
     (case quote request w of
        (Inl x, w') \<Rightarrow> (Inl x, w')
      | (Inr ord, w') \<Rightarrow> (Inr request, w'))"

definition demo_makeSwapPluginQuote :: "swap_order \<Rightarrow> exn + swap_order" where
  "demo_makeSwapPluginQuote ord = Inr ord"

subsection \<open>Comparing two rate responses\<close>

text \<open>
  What is left of a response object when the three fields that describe the quote itself
  are taken out. Two objects with the same remainder differ at most in \<open>fromAmount\<close>,
  \<open>toAmount\<close> and \<open>message\<close>.
\<close>

definition withoutQuoted :: "(string \<times> 'n json) list \<Rightarrow> (string \<times> 'n json) list" where
  "withoutQuoted fs =
     filter (\<lambda>kv. \<not> List.member [''fromAmount'', ''toAmount'', ''message''] (fst kv)) fs"

section \<open>Facts about the model\<close>

lemmas demo_defs = demo_decimals_def demo_parseFloat_def demo_toString_def
  demo_nativeToDenomination_def demo_denominationToNative_def demo_wallet_def demo_btc_def
  demo_xrp_def demo_zec_def demo_matic_def demo_request_def req_from_20_def req_from_5_def
  req_to_20_def req_to_5_def req_lower_20_def req_xrp_20_def demo_memoType_def demo_env_def
  rate_body_def rate_body_no_withdrawMin_def rate_body_other_quote_def rate_body_below_def
  order_body_def order_body_tagged_def answer_def env_ok_def env_ok_other_quote_def
  env_no_withdrawMin_def env_tagged_def env_below_422_def env_below_500_def env_bad_422_def
  env_bad_500_def

lemmas model_defs = getFixedQuote_def prepareQuote_def call_def handleResponse_def
  mkRequest_def headers_def checkRateMinimum_def createOrder_def assembleOrder_def
  mkSpendInfo_def mkMemos_def exchangeParams_def mkQuoteParams_def
  getCodesWithTranscription_def MAINNET_CODE_TRANSCRIPTION_def asRateResponse_def
  asQuoteInfo_def asNumber_def asString_def asNull_def asOptional_def asEither_def
  asMaybe_def asMessage_def asOptionalString_def isObject_def field_def bindE_def
  toUpperCase_def toUpperChar_def uri_def orderUri_def expirationMs_def swapInfo_def

subsection \<open>Sequencing\<close>

lemma bindE_Inl: "bindE (Inl x) f = Inl x"
  by (simp add: bindE_def)

lemma bindE_Inr: "bindE (Inr x) f = f x"
  by (simp add: bindE_def)

lemma bindE_eq_Inr: "bindE m f = Inr y \<longleftrightarrow> (\<exists>x. m = Inr x \<and> f x = Inr y)"
  by (cases m) (simp_all add: bindE_def)

subsection \<open>Upper case\<close>

text \<open>The currency codes that uppercase to \<open>BTC\<close> are its eight spellings.\<close>

lemma toUpperChar_B: "toUpperChar c = CHR ''B'' \<longleftrightarrow> c = CHR ''b'' \<or> c = CHR ''B''"
  by (auto simp: toUpperChar_def split: if_splits)

lemma toUpperChar_T: "toUpperChar c = CHR ''T'' \<longleftrightarrow> c = CHR ''t'' \<or> c = CHR ''T''"
  by (auto simp: toUpperChar_def split: if_splits)

lemma toUpperChar_C: "toUpperChar c = CHR ''C'' \<longleftrightarrow> c = CHR ''c'' \<or> c = CHR ''C''"
  by (auto simp: toUpperChar_def split: if_splits)

lemma toUpperCase_BTC:
  "toUpperCase s = ''BTC'' \<longleftrightarrow>
     (\<exists>a b c. s = [a, b, c] \<and> (a = CHR ''b'' \<or> a = CHR ''B'') \<and>
        (b = CHR ''t'' \<or> b = CHR ''T'') \<and> (c = CHR ''c'' \<or> c = CHR ''C''))"
proof -
  have "toUpperCase s = ''BTC'' \<longleftrightarrow>
      (\<exists>a b c. s = [a, b, c] \<and> toUpperChar a = CHR ''B'' \<and> toUpperChar b = CHR ''T'' \<and>
         toUpperChar c = CHR ''C'')"
    by (auto simp: toUpperCase_def map_eq_Cons_conv)
  then show ?thesis
    by (simp only: toUpperChar_B toUpperChar_T toUpperChar_C)
qed

subsection \<open>The remote call\<close>

text \<open>Every call logs exactly its own request, whatever comes back.\<close>

lemma call_log: "snd (call e request m route ps w) = w @ [mkRequest e m route ps]"
  by (simp add: call_def Let_def)

lemma call_result:
  "fst (call e request m route ps w) =
     bindE (fetchCors e w (mkRequest e m route ps)) (handleResponse request)"
  by (simp add: call_def Let_def)

lemma call_eq:
  "call e request m route ps w = (r, w') \<longleftrightarrow>
     r = bindE (fetchCors e w (mkRequest e m route ps)) (handleResponse request) \<and>
     w' = w @ [mkRequest e m route ps]"
  by (auto simp: call_def Let_def)

text \<open>A body of the rate shape survives every status but a failure other than 422.\<close>

lemma handleResponse_422_rate:
  assumes "\<not> ok response" "status response = 422" "json_body response = Some body"
    "asRateResponse body = Inr rateResponse"
  shows "handleResponse request response = Inr body"
  using assms by (simp add: handleResponse_def asMaybe_def)

lemma handleResponse_valid_rate:
  assumes "json_body response = Some body" "asRateResponse body = Inr rateResponse"
  shows "handleResponse request response =
           (if \<not> ok response \<and> status response \<noteq> 422
            then Inl (ProviderError (status response)) else Inr body)"
  using assms by (simp add: handleResponse_def asMaybe_def)

subsection \<open>Rate responses\<close>

lemma map_of_withoutQuoted:
  assumes "k \<noteq> ''fromAmount''" "k \<noteq> ''toAmount''" "k \<noteq> ''message''"
  shows "map_of (withoutQuoted fs) k = map_of fs k"
  using assms by (induction fs) (auto simp: withoutQuoted_def)

lemma asRateResponse_minimums:
  assumes "asRateResponse (JObj fs) = Inr rateResponse"
  shows "asNumber (map_of fs ''minAmount'') = Inr (minAmount rateResponse)"
    and "asOptional asNumber 0 (map_of fs ''withdrawMin'') = Inr (withdrawMin rateResponse)"
  using assms
  by (auto simp: asRateResponse_def isObject_def field_def bindE_eq_Inr)

lemma checkRateMinimum_cong:
  assumes "minAmount a = minAmount b" "withdrawMin a = withdrawMin b"
    "numToString e2 = numToString e1"
  shows "checkRateMinimum e2 request b = checkRateMinimum e1 request a"
  using assms by (simp add: checkRateMinimum_def)

subsection \<open>The negotiation\<close>

text \<open>What a successful run went through.\<close>

lemma prepareQuote_Inr:
  assumes "prepareQuote e request = Inr p"
  shows "\<exists>exchangeQuoteAmount c.
           (if quoteFor request = From
            then nativeToDenomination (fromWallet request)
                   (nativeAmount request) (fromCurrencyCode request)
            else nativeToDenomination (toWallet request)
                   (nativeAmount request) (toCurrencyCode request)) = Inr exchangeQuoteAmount \<and>
           quoteAmount p = parseFloat e exchangeQuoteAmount \<and>
           quoteParams p = mkQuoteParams request c (quoteAmount p)"
  using assms by (auto simp: prepareQuote_def bindE_eq_Inr)

lemma assembleOrder_Inr:
  assumes "assembleOrder e request p quoteInfo = Inr ord"
  shows "\<exists>fromNative toNative.
           denominationToNative (fromWallet request)
             (numToString e (qi_amount quoteInfo)) (fromCurrencyCode request) = Inr fromNative \<and>
           denominationToNative (toWallet request)
             (numToString e (qi_amountTo quoteInfo)) (toCurrencyCode request) = Inr toNative \<and>
           ord = \<lparr>order_request = request,
                  spendInfo = mkSpendInfo e request p quoteInfo fromNative toNative,
                  order_swapInfo = swapInfo,
                  fromNativeAmount = fromNative,
                  expirationDate = dateNow e + expirationMs\<rparr>"
  using assms by (auto simp: assembleOrder_def bindE_eq_Inr)

lemma createOrder_Inr:
  assumes "createOrder e request p w = (Inr ord, w')"
  shows "\<exists>j quoteInfo.
           fst (call e request POST ''transactions'' (exchangeParams request p) w) = Inr j \<and>
           asQuoteInfo j = Inr quoteInfo \<and>
           assembleOrder e request p quoteInfo = Inr ord \<and>
           w' = w @ [mkRequest e POST ''transactions'' (exchangeParams request p)]"
  using assms
  by (auto simp: createOrder_def call_eq call_result bindE_eq_Inr split: prod.splits)

lemma getFixedQuote_Inr:
  assumes "getFixedQuote e request w = (Inr ord, w')"
  shows "\<exists>p jr rateResponse jo quoteInfo.
           prepareQuote e request = Inr p \<and>
           fst (call e request GET ''rate'' (quoteParams p) w) = Inr jr \<and>
           asRateResponse jr = Inr rateResponse \<and>
           checkRateMinimum e request rateResponse = Inr () \<and>
           fst (call e request POST ''transactions'' (exchangeParams request p)
                  (w @ [mkRequest e GET ''rate'' (quoteParams p)])) = Inr jo \<and>
           asQuoteInfo jo = Inr quoteInfo \<and>
           assembleOrder e request p quoteInfo = Inr ord \<and>
           w' = w @ [mkRequest e GET ''rate'' (quoteParams p),
                     mkRequest e POST ''transactions'' (exchangeParams request p)]"
proof -
  from assms obtain p where p: "prepareQuote e request = Inr p"
    by (cases "prepareQuote e request") (auto simp: getFixedQuote_def)
  let ?rq = "mkRequest e GET ''rate'' (quoteParams p)"
  obtain rj where rj: "call e request GET ''rate'' (quoteParams p) w = (rj, w @ [?rq])"
    by (simp add: call_eq)
  from assms p rj obtain u where
    chk: "bindE rj (\<lambda>j. bindE (asRateResponse j) (checkRateMinimum e request)) = Inr u"
    and co: "createOrder e request p (w @ [?rq]) = (Inr ord, w')"
    by (cases "bindE rj (\<lambda>j. bindE (asRateResponse j) (checkRateMinimum e request))")
       (auto simp: getFixedQuote_def)
  from chk obtain jr rr where "rj = Inr jr" "asRateResponse jr = Inr rr"
    "checkRateMinimum e request rr = Inr ()"
    by (auto simp: bindE_eq_Inr)
  with p rj createOrder_Inr[OF co] show ?thesis
    by fastforce
qed

text \<open>The run from the cleaned rate response on, and the requests a run can issue.\<close>

lemma getFixedQuote_after_rate:
  assumes prep: "prepareQuote e request = Inr p"
    and rate: "fst (call e request GET ''rate'' (quoteParams p) w) = Inr j"
    and shape: "asRateResponse j = Inr rateResponse"
  shows "getFixedQuote e request w =
           (case checkRateMinimum e request rateResponse of
              Inl x \<Rightarrow> (Inl x, w @ [mkRequest e GET ''rate'' (quoteParams p)])
            | Inr u \<Rightarrow> createOrder e request p (w @ [mkRequest e GET ''rate'' (quoteParams p)]))"
proof -
  have "call e request GET ''rate'' (quoteParams p) w =
          (Inr j, w @ [mkRequest e GET ''rate'' (quoteParams p)])"
    using rate by (simp add: call_eq call_result)
  then show ?thesis
    using prep shape by (simp add: getFixedQuote_def bindE_Inr)
qed

lemma getFixedQuote_log:
  assumes "prepareQuote e request = Inr p"
  shows "snd (getFixedQuote e request w) = w @ [mkRequest e GET ''rate'' (quoteParams p)]
       \<or> snd (getFixedQuote e request w) =
            w @ [mkRequest e GET ''rate'' (quoteParams p),
                 mkRequest e POST ''transactions'' (exchangeParams request p)]"
  using assms
  by (auto simp: getFixedQuote_def createOrder_def call_def Let_def split: sum.splits prod.splits)

subsection \<open>Running the test doubles\<close>

lemma prepare_demo:
  assumes "request \<in> {req_from_20, req_from_5, req_to_20, req_to_5, req_lower_20, req_xrp_20}"
  shows "\<exists>p. prepareQuote (demo_env a b) request = Inr p"
  using assms by (auto simp: model_defs demo_defs)

lemma rate_demo:
  "fst (call (demo_env a b) request GET ''rate'' ps w) = bindE a (handleResponse request)"
  by (simp add: call_result mkRequest_def demo_env_def)

lemma shape_rate_body:
  "asRateResponse rate_body =
     Inr \<lparr>minAmount = 10, withdrawMin = 10, fromAmount = 20, toAmount = 5, message = None\<rparr>"
  by (simp add: model_defs demo_defs)

lemma shape_rate_body_below:
  "asRateResponse rate_body_below =
     Inr \<lparr>minAmount = 10, withdrawMin = 10, fromAmount = 5, toAmount = 0,
          message = Some ''Amount to exchange is below the minimum''\<rparr>"
  by (simp add: model_defs demo_defs)

lemma shape_rate_body_no_withdrawMin:
  "asRateResponse rate_body_no_withdrawMin =
     Inr \<lparr>minAmount = 10, withdrawMin = 0, fromAmount = 20, toAmount = 5, message = None\<rparr>"
  by (simp add: model_defs demo_defs)

text \<open>
  The fake exchange and wallets carry the 20-unit requests through. A supported request
  does reach the network through the entry point: the stand-in for the maximum adjustment
  runs the negotiation once, and the entry point runs it again.
\<close>

lemma run_from_20: "\<exists>ord w'. getFixedQuote env_ok req_from_20 [] = (Inr ord, w')"
  by (simp add: model_defs demo_defs)

lemma run_lower_20: "\<exists>ord w'. getFixedQuote env_ok req_lower_20 [] = (Inr ord, w')"
  by (simp add: model_defs demo_defs)

lemma run_xrp_20: "\<exists>ord w'. getFixedQuote env_tagged req_xrp_20 [] = (Inr ord, w')"
  by (simp add: model_defs demo_defs)

lemma run_fetchSwapQuote:
  "map (\<lambda>rq. (req_method rq, req_url rq))
     (snd (fetchSwapQuote demo_getMaxSwappable demo_makeSwapPluginQuote env_ok req_from_20 [])) =
   [(GET, ''https://exolix.com/api/v2/rate''), (POST, ''https://exolix.com/api/v2/transactions''),
    (GET, ''https://exolix.com/api/v2/rate''), (POST, ''https://exolix.com/api/v2/transactions'')]"
  by (simp add: fetchSwapQuote_def checkInvalidCodes_def checkWhitelistedMainnetCodes_def
      blacklisted_def INVALID_CURRENCY_CODES_from_def INVALID_CURRENCY_CODES_to_def
      demo_getMaxSwappable_def demo_makeSwapPluginQuote_def model_defs demo_defs)

section \<open>The claims\<close>

text \<open>
  C1. Once the rate response is in hand, the minimum that is enforced is that of the quoted
  side. For a request quoted by its input (\<open>quoteFor = From\<close>) the response's
  \<open>minAmount\<close> is converted to native units by the source wallet under the source
  currency code; for a request quoted by its output (\<open>quoteFor = To\<close>) the response's
  \<open>withdrawMin\<close> is converted by the destination wallet under the destination currency
  code. If the request's native amount is strictly below that native minimum, the
  negotiation fails with the below-limit error that carries the native minimum and names
  the side, and the only request it has issued is the rate request: no binding call.
\<close>

theorem below_minimum_of_quoted_side_fails:
  assumes prep: "prepareQuote e request = Inr p"
    and rate: "fst (call e request GET ''rate'' (quoteParams p) w) = Inr j"
    and shape: "asRateResponse j = Inr rateResponse"
  shows "(quoteFor request = From \<longrightarrow>
           (\<forall>nativeMin.
              denominationToNative (fromWallet request)
                (numToString e (minAmount rateResponse)) (fromCurrencyCode request) = Inr nativeMin \<longrightarrow>
              nativeAmount request < nativeMin \<longrightarrow>
              getFixedQuote e request w =
                (Inl (SwapBelowLimitError nativeMin LimitFrom),
                 w @ [mkRequest e GET ''rate'' (quoteParams p)]))) \<and>
         (quoteFor request = To \<longrightarrow>
           (\<forall>nativeMin.
              denominationToNative (toWallet request)
                (numToString e (withdrawMin rateResponse)) (toCurrencyCode request) = Inr nativeMin \<longrightarrow>
              nativeAmount request < nativeMin \<longrightarrow>
              getFixedQuote e request w =
                (Inl (SwapBelowLimitError nativeMin LimitTo),
                 w @ [mkRequest e GET ''rate'' (quoteParams p)])))"
  by (simp add: getFixedQuote_after_rate[OF assms] checkRateMinimum_def bindE_Inr)

theorem below_minimum_witness:
  "quoteFor req_from_5 = From \<and> nativeAmount req_from_5 = 500 \<and>
   getFixedQuote env_below_422 req_from_5 [] =
     (Inl (SwapBelowLimitError 1000 LimitFrom),
      [mkRequest env_below_422 GET ''rate''
         [(''coinFrom'', JStr ''BTC''), (''coinFromNetwork'', JStr ''BTC''),
          (''coinTo'', JStr ''XRP''), (''coinToNetwork'', JStr ''XRP''),
          (''amount'', JNum 5), (''rateType'', JStr ''fixed'')]]) \<and>
   quoteFor req_to_5 = To \<and> nativeAmount req_to_5 = 500 \<and>
   getFixedQuote env_ok req_to_5 [] =
     (Inl (SwapBelowLimitError 1000 LimitTo),
      [mkRequest env_ok GET ''rate''
         [(''coinFrom'', JStr ''BTC''), (''coinFromNetwork'', JStr ''BTC''),
          (''coinTo'', JStr ''XRP''), (''coinToNetwork'', JStr ''XRP''),
          (''amount'', JNum 5), (''rateType'', JStr ''fixed''),
          (''withdrawalAmount'', JNum 5)]])"
proof -
  obtain p1 where p1: "prepareQuote env_below_422 req_from_5 = Inr p1"
    using prepare_demo[of req_from_5] unfolding env_below_422_def by auto
  have q1: "quoteParams p1 =
      [(''coinFrom'', JStr ''BTC''), (''coinFromNetwork'', JStr ''BTC''),
       (''coinTo'', JStr ''XRP''), (''coinToNetwork'', JStr ''XRP''),
       (''amount'', JNum 5), (''rateType'', JStr ''fixed'')]"
    using p1 by (auto simp: model_defs demo_defs)
  have r1: "fst (call env_below_422 req_from_5 GET ''rate'' (quoteParams p1) []) = Inr rate_body_below"
    unfolding env_below_422_def rate_demo
    by (simp add: answer_def bindE_Inr handleResponse_def asMaybe_def shape_rate_body_below)
  have from_side: "getFixedQuote env_below_422 req_from_5 [] =
     (Inl (SwapBelowLimitError 1000 LimitFrom),
      [mkRequest env_below_422 GET ''rate'' (quoteParams p1)])"
    using below_minimum_of_quoted_side_fails[OF p1 r1 shape_rate_body_below]
    by (simp add: demo_defs)
  obtain p2 where p2: "prepareQuote env_ok req_to_5 = Inr p2"
    using prepare_demo[of req_to_5] unfolding env_ok_def by auto
  have q2: "quoteParams p2 =
      [(''coinFrom'', JStr ''BTC''), (''coinFromNetwork'', JStr ''BTC''),
       (''coinTo'', JStr ''XRP''), (''coinToNetwork'', JStr ''XRP''),
       (''amount'', JNum 5), (''rateType'', JStr ''fixed''),
       (''withdrawalAmount'', JNum 5)]"
    using p2 by (auto simp: model_defs demo_defs)
  have r2: "fst (call env_ok req_to_5 GET ''rate'' (quoteParams p2) []) = Inr rate_body"
    unfolding env_ok_def rate_demo
    by (simp add: answer_def bindE_Inr handleResponse_def)
  have to_side: "getFixedQuote env_ok req_to_5 [] =
     (Inl (SwapBelowLimitError 1000 LimitTo), [mkRequest env_ok GET ''rate'' (quoteParams p2)])"
    using below_minimum_of_quoted_side_fails[OF p2 r2 shape_rate_body]
    by (simp add: demo_defs)
  show ?thesis
    using from_side to_side unfolding q1 q2
    by (simp add: req_from_5_def req_to_5_def demo_request_def)
qed

text \<open>
  C2, as the code has it. The rescue of a failed response is tied to status 422: when a
  call gets a response that is not ok, has status 422 and a body of the rate shape, it
  returns that body as its result; and when the call is the rate request of a negotiation,
  the negotiation goes on to the minimum check with the cleaned body.
\<close>

theorem status_422_with_rate_shape_is_a_quote:
  assumes fetched: "fetchCors e w (mkRequest e m route ps) = Inr response"
    and not_ok: "\<not> ok response"
    and unprocessable: "status response = 422"
    and body: "json_body response = Some body"
    and shape: "asRateResponse body = Inr rateResponse"
  shows "call e request m route ps w = (Inr body, w @ [mkRequest e m route ps]) \<and>
         (\<forall>p. prepareQuote e request = Inr p \<and> m = GET \<and> route = ''rate'' \<and> ps = quoteParams p \<longrightarrow>
            getFixedQuote e request w =
              (case checkRateMinimum e request rateResponse of
                 Inl x \<Rightarrow> (Inl x, w @ [mkRequest e GET ''rate'' (quoteParams p)])
               | Inr u \<Rightarrow>
                   createOrder e request p (w @ [mkRequest e GET ''rate'' (quoteParams p)])))"
proof -
  have res: "call e request m route ps w = (Inr body, w @ [mkRequest e m route ps])"
    using fetched handleResponse_422_rate[OF not_ok unprocessable body shape]
    by (simp add: call_eq bindE_Inr)
  then have "fst (call e request m route ps w) = Inr body" by simp
  with res shape show ?thesis
    by (auto intro: getFixedQuote_after_rate)
qed

theorem status_422_witness:
  "fetchCors env_below_422 [] (mkRequest env_below_422 GET ''rate'' []) =
     Inr \<lparr>ok = False, status = 422, json_body = Some rate_body_below\<rparr> \<and>
   call env_below_422 req_from_5 GET ''rate'' [] [] =
     (Inr rate_body_below, [mkRequest env_below_422 GET ''rate'' []]) \<and>
   fst (getFixedQuote env_below_422 req_from_5 []) = Inl (SwapBelowLimitError 1000 LimitFrom)"
proof -
  let ?resp = "\<lparr>ok = False, status = 422, json_body = Some rate_body_below\<rparr> :: int fetch_response"
  have f: "\<And>ps. fetchCors env_below_422 [] (mkRequest env_below_422 GET ''rate'' ps) = Inr ?resp"
    by (simp add: env_below_422_def demo_env_def mkRequest_def answer_def)
  obtain p where p: "prepareQuote env_below_422 req_from_5 = Inr p"
    using prepare_demo[of req_from_5] unfolding env_below_422_def by auto
  note inst = status_422_with_rate_shape_is_a_quote[OF f _ _ _ shape_rate_body_below,
      of req_from_5, simplified]
  have a: "call env_below_422 req_from_5 GET ''rate'' [] [] =
     (Inr rate_body_below, [mkRequest env_below_422 GET ''rate'' []])"
    using inst[of "[]"] by simp
  have "fst (getFixedQuote env_below_422 req_from_5 []) =
      Inl (SwapBelowLimitError 1000 LimitFrom)"
    using inst[of "quoteParams p"] p
    by (simp add: checkRateMinimum_def bindE_def demo_defs)
  with f a show ?thesis by simp
qed

text \<open>
  C2, as the claim words it (any status that is not a success), fails: a body of the rate
  shape under status 500 is not returned, the call throws the error that carries the
  status.
\<close>

theorem status_500_with_rate_shape_is_an_error:
  "fetchCors env_below_500 [] (mkRequest env_below_500 GET ''rate'' []) =
     Inr \<lparr>ok = False, status = 500, json_body = Some rate_body_below\<rparr> \<and>
   asRateResponse rate_body_below =
     Inr \<lparr>minAmount = 10, withdrawMin = 10, fromAmount = 5, toAmount = 0,
          message = Some ''Amount to exchange is below the minimum''\<rparr> \<and>
   fst (call env_below_500 req_from_5 GET ''rate'' [] []) = Inl (ProviderError 500) \<and>
   fst (getFixedQuote env_below_500 req_from_5 []) = Inl (ProviderError 500)"
  by (simp add: model_defs demo_defs)







text \<open>
  C5. A request with a leg whose chain is not in \<^verbatim>\<open>MAINNET_CODE_TRANSCRIPTION\<close>, or
  with a leg whose (chain, symbol) pair is in that leg's blacklist, is rejected by
  \<^verbatim>\<open>fetchSwapQuote\<close> with the currency-unsupported error, and the request log is
  unchanged: nothing was fetched. The other leg is arbitrary, and so are the
  collaborators around the negotiation. The two checks are modelled from the spec.
\<close>

theorem unsupported_asset_rejected_before_any_fetch:
  assumes "map_of MAINNET_CODE_TRANSCRIPTION (pluginId (fromWallet request)) = None
         \<or> map_of MAINNET_CODE_TRANSCRIPTION (pluginId (toWallet request)) = None
         \<or> blacklisted INVALID_CURRENCY_CODES_from
              (pluginId (fromWallet request)) (fromCurrencyCode request)
         \<or> blacklisted INVALID_CURRENCY_CODES_to
              (pluginId (toWallet request)) (toCurrencyCode request)"
  shows "fetchSwapQuote getMaxSwappable makeSwapPluginQuote e request w =
           (Inl (SwapCurrencyError (fromCurrencyCode request) (toCurrencyCode request)), w)"
  using assms
  by (auto simp: fetchSwapQuote_def checkInvalidCodes_def checkWhitelistedMainnetCodes_def)

theorem unsupported_asset_witness:
  "blacklisted INVALID_CURRENCY_CODES_to ''zcash'' ''ZEC'' \<and>
   fetchSwapQuote demo_getMaxSwappable demo_makeSwapPluginQuote env_ok (demo_request demo_btc ''BTC'' demo_zec ''ZEC'' From 2000) [] =
     (Inl (SwapCurrencyError ''BTC'' ''ZEC''), []) \<and>
   fetchSwapQuote demo_getMaxSwappable demo_makeSwapPluginQuote env_ok (demo_request demo_matic ''ZEC'' demo_zec ''ZEC'' From 2000) [] =
     (Inl (SwapCurrencyError ''ZEC'' ''ZEC''), []) \<and>
   map_of MAINNET_CODE_TRANSCRIPTION ''polygon'' = None \<and>
   fetchSwapQuote demo_getMaxSwappable demo_makeSwapPluginQuote env_ok (demo_request demo_matic ''MATIC'' demo_btc ''BTC'' From 2000) [] =
     (Inl (SwapCurrencyError ''MATIC'' ''BTC''), []) \<and>
   fetchSwapQuote demo_getMaxSwappable demo_makeSwapPluginQuote env_ok (demo_request demo_btc ''BTC'' demo_matic ''MATIC'' To 2000) [] =
     (Inl (SwapCurrencyError ''BTC'' ''MATIC''), [])"
proof -
  have bl: "blacklisted INVALID_CURRENCY_CODES_to ''zcash'' ''ZEC''"
    by (simp add: blacklisted_def INVALID_CURRENCY_CODES_to_def)
  have wl: "map_of MAINNET_CODE_TRANSCRIPTION ''polygon'' = None"
    by (simp add: MAINNET_CODE_TRANSCRIPTION_def)
  have a: "fetchSwapQuote demo_getMaxSwappable demo_makeSwapPluginQuote env_ok (demo_request demo_btc ''BTC'' demo_zec ''ZEC'' From 2000) [] =
     (Inl (SwapCurrencyError ''BTC'' ''ZEC''), [])"
    using unsupported_asset_rejected_before_any_fetch
      [of "demo_request demo_btc ''BTC'' demo_zec ''ZEC'' From 2000" demo_getMaxSwappable demo_makeSwapPluginQuote env_ok "[]"] bl
    by (simp add: demo_request_def demo_zec_def demo_wallet_def)
  have b: "fetchSwapQuote demo_getMaxSwappable demo_makeSwapPluginQuote env_ok (demo_request demo_matic ''ZEC'' demo_zec ''ZEC'' From 2000) [] =
     (Inl (SwapCurrencyError ''ZEC'' ''ZEC''), [])"
    using unsupported_asset_rejected_before_any_fetch
      [of "demo_request demo_matic ''ZEC'' demo_zec ''ZEC'' From 2000" demo_getMaxSwappable demo_makeSwapPluginQuote env_ok "[]"] bl
    by (simp add: demo_request_def demo_zec_def demo_wallet_def)
  have c: "fetchSwapQuote demo_getMaxSwappable demo_makeSwapPluginQuote env_ok (demo_request demo_matic ''MATIC'' demo_btc ''BTC'' From 2000) [] =
     (Inl (SwapCurrencyError ''MATIC'' ''BTC''), [])"
    using unsupported_asset_rejected_before_any_fetch
      [of "demo_request demo_matic ''MATIC'' demo_btc ''BTC'' From 2000" demo_getMaxSwappable demo_makeSwapPluginQuote env_ok "[]"] wl
    by (simp add: demo_request_def demo_matic_def demo_wallet_def)
  have d: "fetchSwapQuote demo_getMaxSwappable demo_makeSwapPluginQuote env_ok (demo_request demo_btc ''BTC'' demo_matic ''MATIC'' To 2000) [] =
     (Inl (SwapCurrencyError ''BTC'' ''MATIC''), [])"
    using unsupported_asset_rejected_before_any_fetch
      [of "demo_request demo_btc ''BTC'' demo_matic ''MATIC'' To 2000" demo_getMaxSwappable demo_makeSwapPluginQuote env_ok "[]"] wl
    by (simp add: demo_request_def demo_matic_def demo_wallet_def)
  from bl wl a b c d show ?thesis by simp
qed

text \<open>
  C6. The decimal amount is the number parsed from what the wallet of the quoted side
  makes of the request's native amount. Both the rate request and the binding request
  carry it as \<open>amount\<close>; they carry it as \<open>withdrawalAmount\<close> exactly when the request
  is quoted by its output. The binding request always carries \<open>rateType = fixed\<close> and
  empty \<open>withdrawalExtraId\<close> and \<open>refundExtraId\<close>. These two are the only requests a
  negotiation issues.
\<close>

theorem amount_parameter_follows_direction:
  assumes prep: "prepareQuote e request = Inr p"
  shows "(\<exists>exchangeQuoteAmount.
            (if quoteFor request = From
             then nativeToDenomination (fromWallet request)
                    (nativeAmount request) (fromCurrencyCode request)
             else nativeToDenomination (toWallet request)
                    (nativeAmount request) (toCurrencyCode request)) = Inr exchangeQuoteAmount \<and>
            quoteAmount p = parseFloat e exchangeQuoteAmount) \<and>
         map_of (quoteParams p) ''amount'' = Some (JNum (quoteAmount p)) \<and>
         map_of (quoteParams p) ''withdrawalAmount'' =
           (if quoteFor request = To then Some (JNum (quoteAmount p)) else None) \<and>
         map_of (exchangeParams request p) ''amount'' = Some (JNum (quoteAmount p)) \<and>
         map_of (exchangeParams request p) ''withdrawalAmount'' =
           (if quoteFor request = To then Some (JNum (quoteAmount p)) else None) \<and>
         map_of (exchangeParams request p) ''rateType'' = Some (JStr ''fixed'') \<and>
         map_of (exchangeParams request p) ''withdrawalExtraId'' = Some (JStr []) \<and>
         map_of (exchangeParams request p) ''refundExtraId'' = Some (JStr []) \<and>
         (\<exists>issued. snd (getFixedQuote e request w) = w @ issued \<and>
            (issued = [mkRequest e GET ''rate'' (quoteParams p)] \<or>
             issued = [mkRequest e GET ''rate'' (quoteParams p),
                       mkRequest e POST ''transactions'' (exchangeParams request p)]))"
proof -
  from prepareQuote_Inr[OF prep] obtain s c where
    s: "(if quoteFor request = From
         then nativeToDenomination (fromWallet request)
                (nativeAmount request) (fromCurrencyCode request)
         else nativeToDenomination (toWallet request)
                (nativeAmount request) (toCurrencyCode request)) = Inr s"
       "quoteAmount p = parseFloat e s"
    and q: "quoteParams p = mkQuoteParams request c (quoteAmount p)"
    by blast
  have amt: "\<exists>s. (if quoteFor request = From
         then nativeToDenomination (fromWallet request)
                (nativeAmount request) (fromCurrencyCode request)
         else nativeToDenomination (toWallet request)
                (nativeAmount request) (toCurrencyCode request)) = Inr s \<and>
       quoteAmount p = parseFloat e s"
    using s by blast
  have qp: "map_of (quoteParams p) ''amount'' = Some (JNum (quoteAmount p))"
    "map_of (quoteParams p) ''withdrawalAmount'' =
       (if quoteFor request = To then Some (JNum (quoteAmount p)) else None)"
    unfolding q by (simp_all add: mkQuoteParams_def)
  have ep: "map_of (exchangeParams request p) ''amount'' = Some (JNum (quoteAmount p))"
    "map_of (exchangeParams request p) ''withdrawalAmount'' =
       (if quoteFor request = To then Some (JNum (quoteAmount p)) else None)"
    "map_of (exchangeParams request p) ''rateType'' = Some (JStr ''fixed'')"
    "map_of (exchangeParams request p) ''withdrawalExtraId'' = Some (JStr [])"
    "map_of (exchangeParams request p) ''refundExtraId'' = Some (JStr [])"
    by (simp_all add: exchangeParams_def)
  have log: "\<exists>issued. snd (getFixedQuote e request w) = w @ issued \<and>
            (issued = [mkRequest e GET ''rate'' (quoteParams p)] \<or>
             issued = [mkRequest e GET ''rate'' (quoteParams p),
                       mkRequest e POST ''transactions'' (exchangeParams request p)])"
    using getFixedQuote_log[OF prep, of w] by auto
  from amt qp ep log show ?thesis by blast
qed

theorem amount_parameter_witness:
  "(\<exists>p. prepareQuote env_ok req_from_20 = Inr p \<and> quoteFor req_from_20 = From \<and>
      quoteAmount p = 20 \<and>
      map_of (quoteParams p) ''amount'' = Some (JNum 20) \<and>
      map_of (quoteParams p) ''withdrawalAmount'' = None \<and>
      map_of (exchangeParams req_from_20 p) ''amount'' = Some (JNum 20) \<and>
      map_of (exchangeParams req_from_20 p) ''withdrawalAmount'' = None \<and>
      snd (getFixedQuote env_ok req_from_20 []) =
        [mkRequest env_ok GET ''rate'' (quoteParams p),
         mkRequest env_ok POST ''transactions'' (exchangeParams req_from_20 p)]) \<and>
   (\<exists>p. prepareQuote env_ok req_to_20 = Inr p \<and> quoteFor req_to_20 = To \<and>
      quoteAmount p = 20 \<and>
      map_of (quoteParams p) ''withdrawalAmount'' = Some (JNum 20) \<and>
      map_of (exchangeParams req_to_20 p) ''withdrawalAmount'' = Some (JNum 20) \<and>
      map_of (exchangeParams req_to_20 p) ''rateType'' = Some (JStr ''fixed'') \<and>
      map_of (exchangeParams req_to_20 p) ''withdrawalExtraId'' = Some (JStr []) \<and>
      map_of (exchangeParams req_to_20 p) ''refundExtraId'' = Some (JStr []))"
proof -
  obtain p1 where p1: "prepareQuote env_ok req_from_20 = Inr p1"
    using prepare_demo[of req_from_20] unfolding env_ok_def by auto
  obtain p2 where p2: "prepareQuote env_ok req_to_20 = Inr p2"
    using prepare_demo[of req_to_20] unfolding env_ok_def by auto
  have d1: "quoteFor req_from_20 = From" and d2: "quoteFor req_to_20 = To"
    by (simp_all add: req_from_20_def req_to_20_def demo_request_def)
  have len: "length (snd (getFixedQuote env_ok req_from_20 [])) = 2"
    by (simp add: model_defs demo_defs)
  have a1: "quoteAmount p1 = 20" using p1 by (auto simp: model_defs demo_defs)
  have a2: "quoteAmount p2 = 20" using p2 by (auto simp: model_defs demo_defs)
  note t1 = amount_parameter_follows_direction[OF p1, of "[]"]
  note t2 = amount_parameter_follows_direction[OF p2, of "[]"]
  have "snd (getFixedQuote env_ok req_from_20 []) =
        [mkRequest env_ok GET ''rate'' (quoteParams p1),
         mkRequest env_ok POST ''transactions'' (exchangeParams req_from_20 p1)]"
    using t1 len by auto
  with t1 p1 d1 a1 have one: "\<exists>p. prepareQuote env_ok req_from_20 = Inr p \<and> quoteFor req_from_20 = From \<and>
      quoteAmount p = 20 \<and>
      map_of (quoteParams p) ''amount'' = Some (JNum 20) \<and>
      map_of (quoteParams p) ''withdrawalAmount'' = None \<and>
      map_of (exchangeParams req_from_20 p) ''amount'' = Some (JNum 20) \<and>
      map_of (exchangeParams req_from_20 p) ''withdrawalAmount'' = None \<and>
      snd (getFixedQuote env_ok req_from_20 []) =
        [mkRequest env_ok GET ''rate'' (quoteParams p),
         mkRequest env_ok POST ''transactions'' (exchangeParams req_from_20 p)]"
    by simp
  from t2 p2 d2 a2 have two: "\<exists>p. prepareQuote env_ok req_to_20 = Inr p \<and> quoteFor req_to_20 = To \<and>
      quoteAmount p = 20 \<and>
      map_of (quoteParams p) ''withdrawalAmount'' = Some (JNum 20) \<and>
      map_of (exchangeParams req_to_20 p) ''withdrawalAmount'' = Some (JNum 20) \<and>
      map_of (exchangeParams req_to_20 p) ''rateType'' = Some (JStr ''fixed'') \<and>
      map_of (exchangeParams req_to_20 p) ''withdrawalExtraId'' = Some (JStr []) \<and>
      map_of (exchangeParams req_to_20 p) ''refundExtraId'' = Some (JStr [])"
    by simp
  from one two show ?thesis by blast
qed

text \<open>
  C7. For a request quoted by its output whose rate response has no \<open>withdrawMin\<close>, the
  cleaned response has \<open>withdrawMin = 0\<close>. With a destination wallet that converts the
  decimal zero to the native zero, every request of a non-negative native amount passes
  the minimum check, and the negotiation goes on to issue the binding request.
\<close>

theorem missing_withdrawMin_means_no_output_minimum:
  assumes prep: "prepareQuote e request = Inr p"
    and dir: "quoteFor request = To"
    and rate: "fst (call e request GET ''rate'' (quoteParams p) w) = Inr j"
    and omitted: "field j ''withdrawMin'' = None"
    and shape: "asRateResponse j = Inr rateResponse"
    and zero: "denominationToNative (toWallet request) (numToString e 0) (toCurrencyCode request)
                 = Inr 0"
    and nonneg: "0 \<le> nativeAmount request"
  shows "withdrawMin rateResponse = 0 \<and>
         checkRateMinimum e request rateResponse = Inr () \<and>
         getFixedQuote e request w =
           createOrder e request p (w @ [mkRequest e GET ''rate'' (quoteParams p)]) \<and>
         snd (getFixedQuote e request w) =
           w @ [mkRequest e GET ''rate'' (quoteParams p),
                mkRequest e POST ''transactions'' (exchangeParams request p)]"
proof -
  have wm: "withdrawMin rateResponse = 0"
    using shape omitted
    by (auto simp: asRateResponse_def asOptional_def bindE_eq_Inr split: if_splits)
  have chk: "checkRateMinimum e request rateResponse = Inr ()"
    using dir zero nonneg by (simp add: checkRateMinimum_def wm bindE_Inr)
  have run: "getFixedQuote e request w =
           createOrder e request p (w @ [mkRequest e GET ''rate'' (quoteParams p)])"
    by (simp add: getFixedQuote_after_rate[OF prep rate shape] chk)
  have "snd (createOrder e request p (w @ [mkRequest e GET ''rate'' (quoteParams p)])) =
           w @ [mkRequest e GET ''rate'' (quoteParams p),
                mkRequest e POST ''transactions'' (exchangeParams request p)]"
    by (simp add: createOrder_def call_def Let_def split: prod.splits)
  with wm chk run show ?thesis by simp
qed

theorem missing_withdrawMin_witness:
  "field rate_body_no_withdrawMin ''withdrawMin'' = None \<and>
   quoteFor req_to_5 = To \<and> nativeAmount req_to_5 = 500 \<and>
   (\<exists>ord. getFixedQuote env_no_withdrawMin req_to_5 [] =
      (Inr ord,
       [mkRequest env_no_withdrawMin GET ''rate''
          [(''coinFrom'', JStr ''BTC''), (''coinFromNetwork'', JStr ''BTC''),
           (''coinTo'', JStr ''XRP''), (''coinToNetwork'', JStr ''XRP''),
           (''amount'', JNum 5), (''rateType'', JStr ''fixed''),
           (''withdrawalAmount'', JNum 5)],
        mkRequest env_no_withdrawMin POST ''transactions''
          [(''coinFrom'', JStr ''BTC''), (''networkFrom'', JStr ''BTC''),
           (''coinTo'', JStr ''XRP''), (''networkTo'', JStr ''XRP''),
           (''amount'', JNum 5), (''withdrawalAddress'', JStr ''r-user''),
           (''withdrawalExtraId'', JStr []), (''refundAddress'', JStr ''bc1-user''),
           (''refundExtraId'', JStr []), (''rateType'', JStr ''fixed''),
           (''withdrawalAmount'', JNum 5)]]))"
proof -
  obtain p where p: "prepareQuote env_no_withdrawMin req_to_5 = Inr p"
    using prepare_demo[of req_to_5] unfolding env_no_withdrawMin_def by auto
  have dir: "quoteFor req_to_5 = To" and amt: "nativeAmount req_to_5 = 500"
    by (simp_all add: req_to_5_def demo_request_def)
  have r: "fst (call env_no_withdrawMin req_to_5 GET ''rate'' (quoteParams p) []) =
             Inr rate_body_no_withdrawMin"
    unfolding env_no_withdrawMin_def rate_demo
    by (simp add: answer_def bindE_Inr handleResponse_def)
  have om: "field rate_body_no_withdrawMin ''withdrawMin'' = None"
    by (simp add: field_def rate_body_no_withdrawMin_def)
  have z: "denominationToNative (toWallet req_to_5) (numToString env_no_withdrawMin 0)
             (toCurrencyCode req_to_5) = Inr 0"
    by (simp add: demo_defs)
  have nn: "0 \<le> nativeAmount req_to_5" by (simp add: amt)
  note t = missing_withdrawMin_means_no_output_minimum
             [OF p dir r om shape_rate_body_no_withdrawMin z nn]
  have ps: "quoteParams p =
          [(''coinFrom'', JStr ''BTC''), (''coinFromNetwork'', JStr ''BTC''),
           (''coinTo'', JStr ''XRP''), (''coinToNetwork'', JStr ''XRP''),
           (''amount'', JNum 5), (''rateType'', JStr ''fixed''),
           (''withdrawalAmount'', JNum 5)]"
    and es: "exchangeParams req_to_5 p =
          [(''coinFrom'', JStr ''BTC''), (''networkFrom'', JStr ''BTC''),
           (''coinTo'', JStr ''XRP''), (''networkTo'', JStr ''XRP''),
           (''amount'', JNum 5), (''withdrawalAddress'', JStr ''r-user''),
           (''withdrawalExtraId'', JStr []), (''refundAddress'', JStr ''bc1-user''),
           (''refundExtraId'', JStr []), (''rateType'', JStr ''fixed''),
           (''withdrawalAmount'', JNum 5)]"
    using p by (auto simp: model_defs demo_defs)
  have ok: "\<exists>ord. fst (getFixedQuote env_no_withdrawMin req_to_5 []) = Inr ord"
    by (simp add: model_defs demo_defs)
  then obtain ord where ord: "fst (getFixedQuote env_no_withdrawMin req_to_5 []) = Inr ord"
    by blast
  from conjunct2[OF conjunct2[OF conjunct2[OF t]]]
  have "snd (getFixedQuote env_no_withdrawMin req_to_5 []) =
      [mkRequest env_no_withdrawMin GET ''rate'' (quoteParams p),
       mkRequest env_no_withdrawMin POST ''transactions'' (exchangeParams req_to_5 p)]"
    by simp
  with ord have "getFixedQuote env_no_withdrawMin req_to_5 [] =
      (Inr ord, [mkRequest env_no_withdrawMin GET ''rate'' (quoteParams p),
                 mkRequest env_no_withdrawMin POST ''transactions'' (exchangeParams req_to_5 p)])"
    by (simp add: prod_eq_iff)
  with om dir amt show ?thesis unfolding ps es by blast
qed

text \<open>
  C8. Every order that the negotiation hands back expires exactly 60 seconds (60000 ms)
  after the instant \<open>dateNow\<close> at which the order object is built. The statement holds
  for every environment and request, so it depends neither on the quote direction, nor on
  what the wallets did before, nor on anything the remote service reports: the cleaner of
  the binding response keeps none of the exchange's own time fields.
\<close>

theorem expiration_is_sixty_seconds_after_construction:
  assumes "getFixedQuote e request w = (Inr ord, w')"
  shows "expirationDate ord = dateNow e + 60000"
proof -
  from getFixedQuote_Inr[OF assms] obtain p quoteInfo
    where "assembleOrder e request p quoteInfo = Inr ord" by blast
  from assembleOrder_Inr[OF this] show ?thesis
    by (auto simp: expirationMs_def)
qed

theorem expiration_witness:
  "\<exists>ord w'. getFixedQuote env_ok req_from_20 [] = (Inr ord, w') \<and>
     dateNow env_ok = 1700000000000 \<and> expirationDate ord = 1700000060000"
proof -
  from run_from_20 obtain ord w' where run: "getFixedQuote env_ok req_from_20 [] = (Inr ord, w')"
    by blast
  from expiration_is_sixty_seconds_after_construction[OF run]
  have "expirationDate ord = 1700000060000"
    by (simp add: env_ok_def demo_env_def)
  with run show ?thesis
    by (simp add: env_ok_def demo_env_def)
qed

text \<open>
  C9. In every order that the negotiation hands back, the spend plan's network-fee option
  is "high" if and only if the source asset's currency code, uppercased, is \<open>BTC\<close>, and
  "standard" otherwise.
\<close>

theorem fee_is_high_exactly_for_btc:
  assumes "getFixedQuote e request w = (Inr ord, w')"
  shows "(networkFeeOption (spendInfo ord) = FeeHigh \<longleftrightarrow>
            toUpperCase (fromCurrencyCode request) = ''BTC'') \<and>
         (networkFeeOption (spendInfo ord) = FeeStandard \<longleftrightarrow>
            toUpperCase (fromCurrencyCode request) \<noteq> ''BTC'')"
proof -
  from getFixedQuote_Inr[OF assms] obtain p quoteInfo
    where "assembleOrder e request p quoteInfo = Inr ord" by blast
  from assembleOrder_Inr[OF this] show ?thesis
    by (auto simp: mkSpendInfo_def split: if_splits)
qed

theorem fee_witness:
  "(\<exists>ord w'. getFixedQuote env_ok req_lower_20 [] = (Inr ord, w') \<and>
      fromCurrencyCode req_lower_20 = ''btc'' \<and> networkFeeOption (spendInfo ord) = FeeHigh) \<and>
   (\<exists>ord w'. getFixedQuote env_tagged req_xrp_20 [] = (Inr ord, w') \<and>
      fromCurrencyCode req_xrp_20 = ''XRP'' \<and> networkFeeOption (spendInfo ord) = FeeStandard)"
proof -
  from run_lower_20 obtain o1 w1 where r1: "getFixedQuote env_ok req_lower_20 [] = (Inr o1, w1)"
    by blast
  from run_xrp_20 obtain o2 w2 where r2: "getFixedQuote env_tagged req_xrp_20 [] = (Inr o2, w2)"
    by blast
  have "networkFeeOption (spendInfo o1) = FeeHigh"
    using fee_is_high_exactly_for_btc[OF r1]
    by (simp add: req_lower_20_def demo_request_def toUpperCase_def toUpperChar_def)
  moreover have "networkFeeOption (spendInfo o2) = FeeStandard"
    using fee_is_high_exactly_for_btc[OF r2]
    by (simp add: req_xrp_20_def demo_request_def toUpperCase_def toUpperChar_def)
  ultimately show ?thesis using r1 r2
    by (simp add: req_lower_20_def req_xrp_20_def demo_request_def)
qed

text \<open>
  C10. Take two negotiations of the same request against exchanges that answer every
  request alike, except that their answers to the rate request, both of the rate shape and
  with the same status, differ in the values of \<open>fromAmount\<close>, \<open>toAmount\<close> and
  \<open>message\<close> only. Both negotiations have the same outcome: the same result and the same
  requests issued. And in an order that is handed back, the native input and output
  amounts are what the two wallets make of \<open>amount\<close> and \<open>amountTo\<close> of the answer to
  the binding request.
\<close>

theorem quoted_amounts_of_rate_response_are_never_read:
  assumes prep: "prepareQuote e1 request = Inr p"
    and env: "e2 = e1\<lparr>fetchCors := f2\<rparr>"
    and others: "\<forall>h rq. req_url rq \<noteq> uri @ ''rate'' \<longrightarrow> f2 h rq = fetchCors e1 h rq"
    and r1: "fetchCors e1 w (mkRequest e1 GET ''rate'' (quoteParams p)) = Inr resp1"
    and r2: "f2 w (mkRequest e1 GET ''rate'' (quoteParams p)) = Inr resp2"
    and same_ok: "ok resp2 = ok resp1"
    and same_status: "status resp2 = status resp1"
    and b1: "json_body resp1 = Some (JObj fs1)"
    and b2: "json_body resp2 = Some (JObj fs2)"
    and rest: "withoutQuoted fs2 = withoutQuoted fs1"
    and v1: "asRateResponse (JObj fs1) = Inr rr1"
    and v2: "asRateResponse (JObj fs2) = Inr rr2"
  shows "getFixedQuote e2 request w = getFixedQuote e1 request w \<and>
         (\<forall>ord w'. getFixedQuote e1 request w = (Inr ord, w') \<longrightarrow>
            (\<exists>j quoteInfo.
               fst (call e1 request POST ''transactions'' (exchangeParams request p)
                      (w @ [mkRequest e1 GET ''rate'' (quoteParams p)])) = Inr j \<and>
               asQuoteInfo j = Inr quoteInfo \<and>
               denominationToNative (fromWallet request)
                 (numToString e1 (qi_amount quoteInfo)) (fromCurrencyCode request) =
                 Inr (fromNativeAmount ord) \<and>
               map target_nativeAmount (spendTargets (spendInfo ord)) = [fromNativeAmount ord] \<and>
               asset_nativeAmount (fromAsset (savedAction (spendInfo ord))) =
                 fromNativeAmount ord \<and>
               denominationToNative (toWallet request)
                 (numToString e1 (qi_amountTo quoteInfo)) (toCurrencyCode request) =
                 Inr (asset_nativeAmount (toAsset (savedAction (spendInfo ord))))))"
proof -
  let ?rq = "mkRequest e1 GET ''rate'' (quoteParams p)"
  have mk: "\<And>m route ps. mkRequest e2 m route ps = mkRequest e1 m route ps"
    by (simp add: env mkRequest_def headers_def)
  have f2: "fetchCors e2 = f2"
    by (simp add: env)
  have prep2: "prepareQuote e2 request = Inr p"
    using prep by (simp add: env prepareQuote_def)
  have mins: "minAmount rr2 = minAmount rr1" "withdrawMin rr2 = withdrawMin rr1"
  proof -
    have "map_of fs2 ''minAmount'' = map_of fs1 ''minAmount''"
      using map_of_withoutQuoted[of "''minAmount''" fs1]
        map_of_withoutQuoted[of "''minAmount''" fs2] rest by simp
    with asRateResponse_minimums(1)[OF v1] asRateResponse_minimums(1)[OF v2]
    show "minAmount rr2 = minAmount rr1" by simp
    have "map_of fs2 ''withdrawMin'' = map_of fs1 ''withdrawMin''"
      using map_of_withoutQuoted[of "''withdrawMin''" fs1]
        map_of_withoutQuoted[of "''withdrawMin''" fs2] rest by simp
    with asRateResponse_minimums(2)[OF v1] asRateResponse_minimums(2)[OF v2]
    show "withdrawMin rr2 = withdrawMin rr1" by simp
  qed
  have chk: "checkRateMinimum e2 request rr2 = checkRateMinimum e1 request rr1"
    using mins by (intro checkRateMinimum_cong) (simp_all add: env)
  have mem: "\<And>q. mkMemos e2 request q = mkMemos e1 request q"
    by (simp add: env mkMemos_def split: option.splits)
  have spend: "\<And>q a b. mkSpendInfo e2 request p q a b = mkSpendInfo e1 request p q a b"
    by (simp add: mkSpendInfo_def mem)
  have asm: "assembleOrder e2 request p = assembleOrder e1 request p"
    by (rule ext) (simp add: assembleOrder_def spend, simp add: env)
  have post: "\<And>h. createOrder e2 request p h = createOrder e1 request p h"
  proof -
    fix h
    have "req_url (mkRequest e1 POST ''transactions'' (exchangeParams request p))
            \<noteq> uri @ ''rate''"
      by (simp add: mkRequest_def)
    with others have "fetchCors e2 h (mkRequest e1 POST ''transactions'' (exchangeParams request p))
          = fetchCors e1 h (mkRequest e1 POST ''transactions'' (exchangeParams request p))"
      by (simp add: f2)
    then show "createOrder e2 request p h = createOrder e1 request p h"
      by (simp add: createOrder_def call_def Let_def mk asm)
  qed
  have c1: "call e1 request GET ''rate'' (quoteParams p) w =
              (if \<not> ok resp1 \<and> status resp1 \<noteq> 422
               then Inl (ProviderError (status resp1)) else Inr (JObj fs1), w @ [?rq])"
    using r1 handleResponse_valid_rate[OF b1 v1]
    by (simp add: call_def Let_def bindE_Inr)
  have c2: "call e2 request GET ''rate'' (quoteParams p) w =
              (if \<not> ok resp1 \<and> status resp1 \<noteq> 422
               then Inl (ProviderError (status resp1)) else Inr (JObj fs2), w @ [?rq])"
    using r2 handleResponse_valid_rate[OF b2 v2] same_ok same_status
    by (simp add: call_def Let_def bindE_Inr mk f2)
  have same: "getFixedQuote e2 request w = getFixedQuote e1 request w"
    by (simp add: getFixedQuote_def prep prep2 c1 c2 bindE_Inr bindE_Inl v1 v2 chk post
        cong: sum.case_cong)
  have amounts: "\<exists>j quoteInfo.
               fst (call e1 request POST ''transactions'' (exchangeParams request p)
                      (w @ [?rq])) = Inr j \<and>
               asQuoteInfo j = Inr quoteInfo \<and>
               denominationToNative (fromWallet request)
                 (numToString e1 (qi_amount quoteInfo)) (fromCurrencyCode request) =
                 Inr (fromNativeAmount ord) \<and>
               map target_nativeAmount (spendTargets (spendInfo ord)) = [fromNativeAmount ord] \<and>
               asset_nativeAmount (fromAsset (savedAction (spendInfo ord))) =
                 fromNativeAmount ord \<and>
               denominationToNative (toWallet request)
                 (numToString e1 (qi_amountTo quoteInfo)) (toCurrencyCode request) =
                 Inr (asset_nativeAmount (toAsset (savedAction (spendInfo ord))))"
    if run: "getFixedQuote e1 request w = (Inr ord, w')" for ord w'
  proof -
    from getFixedQuote_Inr[OF run] prep obtain j quoteInfo where
      j: "fst (call e1 request POST ''transactions'' (exchangeParams request p)
                 (w @ [?rq])) = Inr j"
      and q: "asQuoteInfo j = Inr quoteInfo"
      and a: "assembleOrder e1 request p quoteInfo = Inr ord"
      by auto
    from assembleOrder_Inr[OF a] j q show ?thesis
      by (auto simp: mkSpendInfo_def)
  qed
  from same amounts show ?thesis by blast
qed

theorem quoted_amounts_witness:
  "rate_body \<noteq> rate_body_other_quote \<and>
   (\<exists>fs1 fs2. rate_body = JObj fs1 \<and> rate_body_other_quote = JObj fs2 \<and>
      withoutQuoted fs2 = withoutQuoted fs1) \<and>
   getFixedQuote env_ok_other_quote req_from_20 [] = getFixedQuote env_ok req_from_20 [] \<and>
   (\<exists>ord w'. getFixedQuote env_ok req_from_20 [] = (Inr ord, w') \<and>
      fromNativeAmount ord = 2000 \<and>
      asset_nativeAmount (toAsset (savedAction (spendInfo ord))) = 500)"
proof -
  let ?fs1 = "[(''minAmount'', JNum 10), (''withdrawMin'', JNum 10), (''fromAmount'', JNum 20),
               (''toAmount'', JNum 5), (''message'', JNull)] :: (string \<times> int json) list"
  let ?fs2 = "[(''minAmount'', JNum 10), (''withdrawMin'', JNum 10), (''fromAmount'', JNum 0),
               (''toAmount'', JNum 0), (''message'', JStr ''quote changed'')]
              :: (string \<times> int json) list"
  let ?resp1 = "\<lparr>ok = True, status = 200, json_body = Some (JObj ?fs1)\<rparr> :: int fetch_response"
  let ?resp2 = "\<lparr>ok = True, status = 200, json_body = Some (JObj ?fs2)\<rparr> :: int fetch_response"
  obtain p where p: "prepareQuote env_ok req_from_20 = Inr p"
    using prepare_demo[of req_from_20] unfolding env_ok_def by auto
  have env: "env_ok_other_quote = env_ok\<lparr>fetchCors := fetchCors env_ok_other_quote\<rparr>"
    by (simp add: env_ok_def env_ok_other_quote_def demo_env_def)
  have others: "\<forall>h rq. req_url rq \<noteq> uri @ ''rate'' \<longrightarrow>
                  fetchCors env_ok_other_quote h rq = fetchCors env_ok h rq"
    by (simp add: env_ok_def env_ok_other_quote_def demo_env_def)
  have r1: "fetchCors env_ok [] (mkRequest env_ok GET ''rate'' (quoteParams p)) = Inr ?resp1"
    by (simp add: env_ok_def demo_env_def mkRequest_def answer_def rate_body_def)
  have r2: "fetchCors env_ok_other_quote [] (mkRequest env_ok GET ''rate'' (quoteParams p)) =
              Inr ?resp2"
    by (simp add: env_ok_other_quote_def demo_env_def mkRequest_def answer_def
        rate_body_other_quote_def)
  have rest: "withoutQuoted ?fs2 = withoutQuoted ?fs1"
    by (simp add: withoutQuoted_def)
  have v1: "asRateResponse (JObj ?fs1) =
     Inr \<lparr>minAmount = 10, withdrawMin = 10, fromAmount = 20, toAmount = 5, message = None\<rparr>"
    using shape_rate_body by (simp add: rate_body_def)
  have v2: "asRateResponse (JObj ?fs2) =
     Inr \<lparr>minAmount = 10, withdrawMin = 10, fromAmount = 0, toAmount = 0,
          message = Some ''quote changed''\<rparr>"
    by (simp add: model_defs)
  note t = quoted_amounts_of_rate_response_are_never_read
             [OF p env others r1 r2 _ _ _ _ rest v1 v2, simplified]
  from run_from_20 obtain ord w' where run: "getFixedQuote env_ok req_from_20 [] = (Inr ord, w')"
    by blast
  from t run have same: "getFixedQuote env_ok_other_quote req_from_20 [] =
      getFixedQuote env_ok req_from_20 []"
    by simp
  from conjunct2[OF t] run obtain j q where
    j: "fst (call env_ok req_from_20 POST ''transactions'' (exchangeParams req_from_20 p)
              [mkRequest env_ok GET ''rate'' (quoteParams p)]) = Inr j"
    and q: "asQuoteInfo j = Inr q"
    and a: "denominationToNative (fromWallet req_from_20) (numToString env_ok (qi_amount q))
              (fromCurrencyCode req_from_20) = Inr (fromNativeAmount ord)"
    and b: "denominationToNative (toWallet req_from_20) (numToString env_ok (qi_amountTo q))
              (toCurrencyCode req_from_20) =
              Inr (asset_nativeAmount (toAsset (savedAction (spendInfo ord))))"
    by auto
  have "j = order_body"
    using j by (simp add: call_result mkRequest_def env_ok_def demo_env_def answer_def
        bindE_Inr handleResponse_def uri_def)
  with q have "qi_amount q = 20" "qi_amountTo q = 5"
    by (auto simp: model_defs order_body_def)
  with a b have amounts: "fromNativeAmount ord = 2000"
    "asset_nativeAmount (toAsset (savedAction (spendInfo ord))) = 500"
    by (simp_all add: demo_defs)
  have ne: "rate_body \<noteq> rate_body_other_quote"
    by (simp add: rate_body_def rate_body_other_quote_def)
  have shapes: "\<exists>fs1 fs2. rate_body = JObj fs1 \<and> rate_body_other_quote = JObj fs2 \<and>
      withoutQuoted fs2 = withoutQuoted fs1"
    using rest by (simp add: rate_body_def rate_body_other_quote_def)
  from ne shapes same run amounts show ?thesis by blast
qed

end
